theory Spec2Isabelle
  imports Main "HOL-Library.Word" "HOL-Library.Sublist" "HOL-Library.List_Lexorder"
    "HOL-Library.Char_ord"
begin

unbundle bit_operations_syntax

section \<open>code2context: the exclusion filter, the gitignore cache, the walk and the tree\<close>

text \<open>
  The development embeds the Go sources of code2context: \<open>FileFilter.IsExcluded\<close>
  (package filefilter), \<open>Processor.compileAndCacheGitIgnore\<close> and the walk of
  \<open>Processor.Process\<close> (package processor), \<open>TreeBuilder\<close> (tree builder) and the
  extension normalisation of the command line (package cmd).

  The program is modelled as built for a POSIX platform: the path separator is \<open>/\<close> and
  \<open>runtime.GOOS\<close> is not \<open>windows\<close>. Strings are byte lists, as Go strings are.
  Three things the program calls are not part of the repository and are taken as they
  are documented: \<open>filepath.Match\<close> is a parameter of the filter (its boolean result, the
  error dropped as the code drops it); a compiled gitignore matcher is a value carrying
  its \<open>MatchesPath\<close> method; the file system is a tree of directory entries.
\<close>

subsection \<open>Go library functions used by the code\<close>

definition toLowerByte :: "char \<Rightarrow> char" where
  "toLowerByte c =
     (let n = (of_char c :: nat) in if 65 \<le> n \<and> n \<le> 90 then char_of (n + 32) else c)"

text \<open>\<open>strings.ToLower\<close> on ASCII text; bytes of multi-byte runes are left as they are.\<close>

definition ToLower :: "string \<Rightarrow> string" where
  "ToLower s = map toLowerByte s"

definition HasPrefix :: "string \<Rightarrow> string \<Rightarrow> bool" where
  "HasPrefix s p = prefix p s"

fun Contains :: "string \<Rightarrow> string \<Rightarrow> bool" where
  "Contains [] sub = (sub = [])"
| "Contains (c # cs) sub = (prefix sub (c # cs) \<or> Contains cs sub)"

text \<open>\<open>strings.TrimSpace\<close> for the ASCII white space (space, tab, line feed, VT, FF, CR).\<close>

definition TrimSpace :: "string \<Rightarrow> string" where
  "TrimSpace s =
     (let sp = (\<lambda>c. c \<in> set [CHR 0x20, CHR 0x09, CHR 0x0A, CHR 0x0B, CHR 0x0C, CHR 0x0D])
      in rev (dropWhile sp (rev (dropWhile sp s))))"

definition isSep :: "char \<Rightarrow> bool" where
  "isSep c = (c = CHR ''/'')"

definition stripTrailingSeps :: "string \<Rightarrow> string" where
  "stripTrailingSeps p = rev (dropWhile isSep (rev p))"

definition lastElement :: "string \<Rightarrow> string" where
  "lastElement p = rev (takeWhile (\<lambda>c. \<not> isSep c) (rev p))"

text \<open>\<open>filepath.Base\<close>: the last element of the path, trailing separators removed first.\<close>

definition Base :: "string \<Rightarrow> string" where
  "Base path =
     (if path = [] then ''.''
      else let p = lastElement (stripTrailingSeps path)
           in if p = [] then ''/'' else p)"

text \<open>\<open>filepath.Ext\<close>: scans backwards to the last dot of the last element.\<close>

fun extScan :: "string \<Rightarrow> string \<Rightarrow> string" where
  "extScan [] acc = []"
| "extScan (c # rs) acc =
     (if isSep c then [] else if c = CHR ''.'' then c # acc else extScan rs (c # acc))"

definition Ext :: "string \<Rightarrow> string" where
  "Ext path = extScan (rev path) []"

text \<open>\<open>filepath.ToSlash\<close> returns its argument when the separator is \<open>/\<close>.\<close>

definition ToSlash :: "string \<Rightarrow> string" where
  "ToSlash path = path"

text \<open>
  \<open>filepath.Join\<close>, \<open>filepath.Dir\<close> and \<open>filepath.Rel\<close> on cleaned paths (no empty,
  \<open>.\<close> or \<open>..\<close> element, no trailing separator but for the root), which are the paths
  \<open>filepath.Abs\<close> and \<open>filepath.WalkDir\<close> hand to the program.
\<close>

definition Join :: "string \<Rightarrow> string \<Rightarrow> string" where
  "Join dir name =
     (if dir = [] then name
      else if name = [] then dir
      else if isSep (last dir) then dir @ name
      else dir @ ''/'' @ name)"

definition Dir :: "string \<Rightarrow> string" where
  "Dir path =
     (let d = rev (dropWhile (\<lambda>c. \<not> isSep c) (rev path))
      in if d = [] then ''.''
         else let s = stripTrailingSeps d in if s = [] then ''/'' else s)"

fun splitSep :: "string \<Rightarrow> string \<Rightarrow> string list" where
  "splitSep [] cur = [rev cur]"
| "splitSep (c # cs) cur = (if isSep c then rev cur # splitSep cs [] else splitSep cs (c # cur))"

definition elements :: "string \<Rightarrow> string list" where
  "elements p = filter (\<lambda>e. e \<noteq> []) (splitSep p [])"

fun joinSep :: "string list \<Rightarrow> string" where
  "joinSep [] = []"
| "joinSep [e] = e"
| "joinSep (e # es) = e @ ''/'' @ joinSep es"

fun dropCommon :: "string list \<Rightarrow> string list \<Rightarrow> string list \<times> string list" where
  "dropCommon (b # bs) (t # ts) = (if b = t then dropCommon bs ts else (b # bs, t # ts))"
| "dropCommon bs ts = (bs, ts)"

datatype go_error =
    ErrNotExist
  | ErrPermission
  | ErrOther
  | ErrRel
  | SkipDir
  | FilterInfoError string go_error

definition Rel :: "string \<Rightarrow> string \<Rightarrow> go_error + string" where
  "Rel base targ =
     (if targ = base then Inr ''.''
      else if (base \<noteq> [] \<and> isSep (hd base)) \<noteq> (targ \<noteq> [] \<and> isSep (hd targ)) then Inl ErrRel
      else case dropCommon (elements base) (elements targ) of
             ([], ts) \<Rightarrow> Inr (joinSep ts)
           | (b # bs, ts) \<Rightarrow>
               if b = ''..'' then Inl ErrRel
               else Inr (joinSep (replicate (length (b # bs)) ''..'' @ ts)))"

definition IsNotExist :: "go_error \<Rightarrow> bool" where
  "IsNotExist e = (e = ErrNotExist)"

definition GOOS :: string where
  "GOOS = ''linux''"

subsection \<open>Directory entries and file information (\<open>io/fs\<close>)\<close>

text \<open>\<open>fs.FileMode\<close> is a 32-bit word; \<open>fs.ModeSymlink\<close> is bit 27, \<open>fs.ModeDir\<close> bit 31.\<close>

type_synonym FileMode = "32 word"

definition ModeSymlink :: FileMode where
  "ModeSymlink = push_bit 27 1"

definition ModeDir :: FileMode where
  "ModeDir = push_bit 31 1"

text \<open>
  \<open>fs.ModeType\<close>, the mask of \<open>FileMode.Type\<close>: the bits of \<open>ModeDir\<close>, \<open>ModeSymlink\<close>,
  \<open>ModeNamedPipe\<close>, \<open>ModeSocket\<close>, \<open>ModeDevice\<close>, \<open>ModeCharDevice\<close> and \<open>ModeIrregular\<close>
  (31, 27, 25, 24, 26, 21 and 19). \<open>permExec\<close> is the octal \<open>0111\<close> of the source.
\<close>

definition ModeType :: FileMode where
  "ModeType = 0x8F280000"

definition permExec :: FileMode where
  "permExec = 0x49"

record FileInfo =
  fi_Name :: string
  fi_Size :: int
  fi_Mode :: FileMode
  fi_IsDir :: bool

record DirEntry =
  de_Name :: string
  de_IsDir :: bool
  de_Type :: FileMode
  de_Info :: "go_error + FileInfo"

subsection \<open>Compiled gitignore matchers\<close>

text \<open>
  A \<open>*gitignore.GitIgnore\<close>: the address stands for the pointer (the tree builder compares
  pointers), \<open>MatchesPath\<close> is the method the filter calls. A nil pointer is \<open>None\<close>.
\<close>

datatype GitIgnore = GitIgnore (addr: nat) (MatchesPath: "string \<Rightarrow> bool")

subsection \<open>The filter (package filefilter)\<close>

record FilterConfig =
  MaxFileSize :: int
  UserExcludeDirs :: "string list"
  UserExcludeExts :: "string list"
  UserExcludeGlobs :: "string list"
  SkipAuxFiles :: bool
  DefaultExcludeDirs :: "string list"
  DefaultMediaExts :: "string list"
  DefaultArchiveExts :: "string list"
  DefaultExecExts :: "string list"
  DefaultLockfilePatterns :: "string list"
  DefaultMiscellaneousFileNames :: "string list"
  DefaultMiscellaneousExtensions :: "string list"
  DefaultAuxExts :: "string list"
  FinalOutputFilePath :: string

record FileFilter =
  ff_config :: FilterConfig
  ff_basePath :: string
  ff_absFinalOutputFilePath :: string

text \<open>
  The gitignore loop of \<open>IsExcluded\<close>: \<open>for i := len(activeGitIgnores) - 1; i >= 0; i--\<close>.
  \<open>ignoredFrom absPath gs n\<close> runs the iterations \<open>i = n - 1, ..., 0\<close>.
\<close>

fun ignoredFrom :: "string \<Rightarrow> GitIgnore option list \<Rightarrow> nat \<Rightarrow> bool" where
  "ignoredFrom absPath activeGitIgnores 0 = False"
| "ignoredFrom absPath activeGitIgnores (Suc i) =
     (case activeGitIgnores ! i of
        Some matcher \<Rightarrow>
          if MatchesPath matcher absPath then True
          else ignoredFrom absPath activeGitIgnores i
      | None \<Rightarrow> ignoredFrom absPath activeGitIgnores i)"

text \<open>The loop over the user's extensions (rule 4).\<close>

fun userExtLoop :: "string \<Rightarrow> string list \<Rightarrow> bool" where
  "userExtLoop fileExt [] = False"
| "userExtLoop fileExt (excludedExt # rest) =
     (if excludedExt \<noteq> [] \<and> fileExt = excludedExt then True else userExtLoop fileExt rest)"

text \<open>The loop over the user's glob patterns (rule 5); an empty pattern is skipped.\<close>

fun userGlobLoop :: "(string \<Rightarrow> string \<Rightarrow> bool) \<Rightarrow> string \<Rightarrow> string \<Rightarrow> string list \<Rightarrow> bool" where
  "userGlobLoop Match relPath baseName [] = False"
| "userGlobLoop Match relPath baseName (pattern # rest) =
     (if pattern = [] then userGlobLoop Match relPath baseName rest
      else if Match pattern relPath then True
      else if Match pattern baseName then True
      else userGlobLoop Match relPath baseName rest)"

definition metaNames :: "string list" where
  "metaNames = [''README'', ''LICENSE'', ''COPYING'', ''NOTICE'', ''AUTHORS'', ''CHANGELOG'',
     ''CONTRIBUTING'', ''MANIFEST'']"

text \<open>One iteration of the auxiliary-file loop (rule 10): does this pattern set \<open>isAux\<close>?\<close>

definition auxHit :: "(string \<Rightarrow> string \<Rightarrow> bool) \<Rightarrow> string \<Rightarrow> string \<Rightarrow> string \<Rightarrow> bool" where
  "auxHit Match fileExt baseName auxPattern =
     (if HasPrefix auxPattern ''.'' then fileExt = auxPattern
      else if Contains auxPattern ''*'' \<or> Contains auxPattern ''?'' then Match auxPattern baseName
      else if ToLower baseName = ToLower auxPattern then True
      else HasPrefix (ToLower baseName) (ToLower auxPattern) \<and> List.member metaNames auxPattern)"

text \<open>
  The rules of \<open>IsExcluded\<close> that apply to files only (rules 3 to 10), in the order of the
  source. Every branch returns \<open>(true, nil)\<close>; the end returns \<open>(false, nil)\<close>.
\<close>

definition fileRules ::
  "(string \<Rightarrow> string \<Rightarrow> bool) \<Rightarrow> FilterConfig \<Rightarrow> FileInfo \<Rightarrow> string \<Rightarrow> string \<Rightarrow> string \<Rightarrow> bool" where
  "fileRules Match cfg info absPath relPath baseName =
     (if MaxFileSize cfg > 0 \<and> fi_Size info > MaxFileSize cfg then True
      else let fileExt = ToLower (Ext absPath) in
        if userExtLoop fileExt (UserExcludeExts cfg) then True
        else if userGlobLoop Match relPath baseName (UserExcludeGlobs cfg) then True
        else if GOOS \<noteq> ''windows'' \<and> fi_Mode info AND permExec \<noteq> 0 then True
        else if list_ex (\<lambda>execExt. fileExt = execExt) (DefaultExecExts cfg) then True
        else if fileExt = [] \<and> GOOS \<noteq> ''windows'' \<and> fi_Mode info AND permExec \<noteq> 0 then True
        else if list_ex (\<lambda>mediaExt. fileExt = mediaExt) (DefaultMediaExts cfg) then True
        else if list_ex (\<lambda>archiveExt. fileExt = archiveExt) (DefaultArchiveExts cfg) then True
        else if list_ex (\<lambda>lockPattern. Match lockPattern baseName) (DefaultLockfilePatterns cfg)
          then True
        else if list_ex (\<lambda>miscExt. fileExt = miscExt) (DefaultMiscellaneousExtensions cfg)
          then True
        else if list_ex (\<lambda>miscName. baseName = miscName) (DefaultMiscellaneousFileNames cfg)
          then True
        else if SkipAuxFiles cfg \<and> list_ex (auxHit Match fileExt baseName) (DefaultAuxExts cfg)
          then True
        else False)"

text \<open>
  \<open>FileFilter.IsExcluded(absPath, d, activeGitIgnores)\<close>. The result is the pair
  \<open>(excluded, err)\<close> of the source; \<open>nil\<close> is \<open>None\<close>.
\<close>

definition IsExcluded ::
  "(string \<Rightarrow> string \<Rightarrow> bool) \<Rightarrow> FileFilter \<Rightarrow> string \<Rightarrow> DirEntry \<Rightarrow> GitIgnore option list
     \<Rightarrow> bool \<times> go_error option" where
  "IsExcluded Match ff absPath d activeGitIgnores =
     (if ff_absFinalOutputFilePath ff \<noteq> [] \<and> absPath = ff_absFinalOutputFilePath ff
      then (True, None)
      else case de_Info d of
        Inl err \<Rightarrow>
          if de_Type d AND ModeSymlink \<noteq> 0 \<and> IsNotExist err then (True, None)
          else (False, Some (FilterInfoError absPath err))
      | Inr info \<Rightarrow>
          let relPath = ToSlash (case Rel (ff_basePath ff) absPath of
                                   Inl e \<Rightarrow> Base absPath | Inr r \<Rightarrow> r);
              baseName = Base absPath
          in if fi_Mode info AND ModeSymlink \<noteq> 0 then (True, None)
             else if fi_IsDir info \<and>
                     list_ex (\<lambda>excludedDirName. baseName = excludedDirName)
                       (DefaultExcludeDirs (ff_config ff) @ UserExcludeDirs (ff_config ff))
               then (True, Some SkipDir)
             else if ignoredFrom absPath activeGitIgnores (length activeGitIgnores)
               then (if fi_IsDir info then (True, Some SkipDir) else (True, None))
             else if fi_IsDir info then (False, None)
             else (fileRules Match (ff_config ff) info absPath relPath baseName, None))"

text \<open>\<open>NewFileFilter\<close>, with \<open>filepath.Abs\<close> the identity on the absolute paths it is given.\<close>

definition NewFileFilter :: "string \<Rightarrow> FilterConfig \<Rightarrow> FileFilter" where
  "NewFileFilter basePath config =
     \<lparr> ff_config = config, ff_basePath = basePath,
       ff_absFinalOutputFilePath = FinalOutputFilePath config \<rparr>"

subsection \<open>The default lists (package appconfig) and the command line (package cmd)\<close>

definition GetDefaultExcludedDirs :: "string list" where
  "GetDefaultExcludedDirs =
     [''.git'', ''.hg'', ''.svn'',
      ''.idea'', ''.vscode'', ''.vs'', ''.project'', ''.settings'', ''.classpath'', ''.metals'',
      ''.bsp'', ''.bloop'',
      ''node_modules'', ''vendor'', ''target'', ''build'', ''dist'', ''out'', ''bin'', ''obj'',
      ''__pycache__'', ''.pytest_cache'', ''.mypy_cache'', ''.tox'', ''.venv'', ''venv'', ''ENV'',
      ''env'',
      ''.next'', ''.nuxt'', ''.svelte-kit'', ''.output'',
      ''.wrangler'', ''.serverless'',
      ''.terraform'',
      ''.DS_Store'', ''Thumbs.db'',
      ''.cache'',
      ''.ipynb_checkpoints'',
      ''_build'', ''deps'', ''_rel'', ''ebin'']"

definition GetDefaultMediaExtensions :: "string list" where
  "GetDefaultMediaExtensions =
     [''.jpg'', ''.jpeg'', ''.png'', ''.gif'', ''.bmp'', ''.tiff'', ''.webp'', ''.svg'', ''.ico'',
      ''.mp3'', ''.wav'', ''.ogg'', ''.aac'', ''.flac'', ''.m4a'',
      ''.mp4'', ''.avi'', ''.mov'', ''.wmv'', ''.mkv'', ''.flv'', ''.webm'',
      ''.pdf'', ''.doc'', ''.docx'', ''.xls'', ''.xlsx'', ''.ppt'', ''.pptx'',
      ''.odt'', ''.ods'', ''.odp'',
      ''.ttf'', ''.otf'', ''.woff'', ''.woff2'', ''.eot'',
      ''.psd'', ''.ai'', ''.eps'', ''.sketch'', ''.fig'']"

definition GetDefaultArchiveExtensions :: "string list" where
  "GetDefaultArchiveExtensions =
     [''.zip'', ''.tar'', ''.gz'', ''.bz2'', ''.xz'', ''.rar'', ''.7z'',
      ''.jar'', ''.war'', ''.ear'', ''.apk'', ''.img'', ''.iso'', ''.dmg'', ''.pkg'',
      ''.deb'', ''.rpm'', ''.AppImage'']"

definition GetDefaultExecutableExtensions :: "string list" where
  "GetDefaultExecutableExtensions =
     [''.exe'', ''.com'', ''.bat'', ''.cmd'', ''.ps1'', ''.vbs'', ''.msi'',
      ''.pyc'', ''.pyo'', ''.class'', ''.dll'', ''.so'', ''.dylib'', ''.o'', ''.obj'', ''.lib'',
      ''.a'', ''.elf'']"

definition GetDefaultLockfilePatterns :: "string list" where
  "GetDefaultLockfilePatterns =
     [''go.sum'', ''package-lock.json'', ''yarn.lock'', ''composer.lock'', ''Gemfile.lock'',
      ''Pipfile.lock'', ''poetry.lock'', ''Cargo.lock'', ''*.gradle.lockfile'', ''Podfile.lock'',
      ''pubspec.lock'', ''mix.lock'', ''npm-shrinkwrap.json'', ''pnpm-lock.yaml'',
      ''requirements.txt'', ''constraints.txt'',
      ''terraform.lock.hcl'']"

definition GetDefaultMiscellaneousFileNames :: "string list" where
  "GetDefaultMiscellaneousFileNames =
     [''LICENSE'', ''COPYING'', ''NOTICE'', ''AUTHORS'', ''CHANGELOG'', ''CONTRIBUTING'',
      ''MANIFEST'']"

definition GetDefaultMiscellaneousExtensions :: "string list" where
  "GetDefaultMiscellaneousExtensions =
     [''.log'', ''.tmp'', ''.bak'', ''.swp'', ''.swo'', ''.orig'', ''.rej'',
      ''.patch'', ''.diff'', ''.sql'',
      ''.gitignore'', ''.dockerignore'', ''.npmignore'', ''.eslintignore'', ''.prettierignore'',
      ''.editorconfig'', ''.gitattributes'', ''.gitmodules'',
      ''.prettierrc'', ''.stylelintrc'', ''.eslintrc'', ''.babelrc'']"

text \<open>The normalisation loop at the end of \<open>GetDefaultAuxFileExtensions\<close>.\<close>

definition normalizeAux :: "string \<Rightarrow> string" where
  "normalizeAux item =
     (if Contains item ''.'' \<and> \<not> HasPrefix item ''*'' then
        (if \<not> HasPrefix item ''.'' then ''.'' @ ToLower item else ToLower item)
      else item)"

definition GetDefaultAuxFileExtensions :: "string list" where
  "GetDefaultAuxFileExtensions = map normalizeAux
     [''.json'', ''.jsonc'', ''.json5'', ''.xml'', ''.toml'',
      ''.yml'', ''.yaml'',
      ''.ini'', ''.cfg'', ''.conf'', ''.properties'', ''.env'',
      ''.csv'', ''.tsv'',
      ''.md'', ''.markdown'', ''.rst'', ''.adoc'', ''.tex'',
      ''.txt'', ''.text'',
      ''.log'',
      ''.editorconfig'', ''.gitattributes'', ''.gitmodules'',
      ''.prettierrc'', ''.stylelintrc'', ''.eslintrc'', ''.babelrc'',
      ''.eslintignore'', ''.prettierignore'', ''.dockerignore'',
      ''LICENSE'', ''README'', ''COPYING'', ''NOTICE'', ''AUTHORS'', ''CHANGELOG'',
      ''CONTRIBUTING'', ''MANIFEST'']"

text \<open>\<open>strings.Split(s, sep)\<close> for a one-byte separator.\<close>

fun splitOn :: "char \<Rightarrow> string \<Rightarrow> string \<Rightarrow> string list" where
  "splitOn sep [] cur = [rev cur]"
| "splitOn sep (c # cs) cur =
     (if c = sep then rev cur # splitOn sep cs [] else splitOn sep cs (c # cur))"

definition Split :: "string \<Rightarrow> char \<Rightarrow> string list" where
  "Split s sep = splitOn sep s []"

text \<open>
  \<open>rootCmd.RunE\<close>, the loop over the \<open>--exclude-exts\<close> flag: every item is trimmed and
  gets a leading dot when it has none.
\<close>

definition excludeExtItem :: "string \<Rightarrow> string" where
  "excludeExtItem ext =
     (let trimmedExt = TrimSpace ext
      in if \<not> HasPrefix trimmedExt ''.'' \<and> trimmedExt \<noteq> [] then ''.'' @ trimmedExt
         else trimmedExt)"

definition excludeExtsOf :: "string \<Rightarrow> string list" where
  "excludeExtsOf excludeExtsRaw =
     (if excludeExtsRaw \<noteq> [] then map excludeExtItem (Split excludeExtsRaw (CHR '','')) else [])"

definition excludeGlobsOf :: "string \<Rightarrow> string list" where
  "excludeGlobsOf excludeGlobsRaw =
     (if excludeGlobsRaw \<noteq> [] then map TrimSpace (Split excludeGlobsRaw (CHR '','')) else [])"

text \<open>
  The filter configuration that \<open>RunE\<close> and \<open>determineOutputFileAndInitFilter\<close> build
  from the flags: the size limit, the three user lists and the output path.
\<close>

definition filterConfigOf ::
  "int \<Rightarrow> string list \<Rightarrow> string \<Rightarrow> string \<Rightarrow> bool \<Rightarrow> string \<Rightarrow> FilterConfig" where
  "filterConfigOf maxFileSize excludeDirs excludeExtsRaw excludeGlobsRaw skipAuxFiles output =
     \<lparr> MaxFileSize = maxFileSize,
       UserExcludeDirs = excludeDirs,
       UserExcludeExts = excludeExtsOf excludeExtsRaw,
       UserExcludeGlobs = excludeGlobsOf excludeGlobsRaw,
       SkipAuxFiles = skipAuxFiles,
       DefaultExcludeDirs = GetDefaultExcludedDirs,
       DefaultMediaExts = GetDefaultMediaExtensions,
       DefaultArchiveExts = GetDefaultArchiveExtensions,
       DefaultExecExts = GetDefaultExecutableExtensions,
       DefaultLockfilePatterns = GetDefaultLockfilePatterns,
       DefaultMiscellaneousFileNames = GetDefaultMiscellaneousFileNames,
       DefaultMiscellaneousExtensions = GetDefaultMiscellaneousExtensions,
       DefaultAuxExts = GetDefaultAuxFileExtensions,
       FinalOutputFilePath = output \<rparr>"

subsection \<open>The gitignore cache (package processor)\<close>

text \<open>
  What the file system answers about a \<open>.gitignore\<close> path: \<open>os.Stat\<close> (nil or an error)
  and \<open>gitignore.CompileIgnoreFile\<close> (a matcher or an error).
\<close>

record gitignoreFS =
  Stat :: "string \<Rightarrow> go_error option"
  CompileIgnoreFile :: "string \<Rightarrow> go_error + GitIgnore"

datatype io_call = CallStat string | CallCompileIgnoreFile string

text \<open>
  \<open>Processor.gitIgnoreCache\<close>, a Go map from the path of a \<open>.gitignore\<close> file to a matcher
  pointer that may be nil: \<open>None\<close> is a missing key, \<open>Some None\<close> a cached nil.
\<close>

type_synonym gitIgnoreCache = "string \<Rightarrow> GitIgnore option option"

text \<open>
  \<open>Processor.compileAndCacheGitIgnore(dirPath)\<close>. The result is the returned pair, the
  cache after the call and the file-system calls the call made, in order.
\<close>

definition compileAndCacheGitIgnore ::
  "gitignoreFS \<Rightarrow> gitIgnoreCache \<Rightarrow> string
     \<Rightarrow> (GitIgnore option \<times> go_error option) \<times> gitIgnoreCache \<times> io_call list" where
  "compileAndCacheGitIgnore fsys cache dirPath =
     (let gitIgnorePath = Join dirPath ''.gitignore''
      in case cache gitIgnorePath of
           Some matcher \<Rightarrow> ((matcher, None), cache, [])
         | None \<Rightarrow>
             (case Stat fsys gitIgnorePath of
                None \<Rightarrow>
                  (case CompileIgnoreFile fsys gitIgnorePath of
                     Inl compileErr \<Rightarrow>
                       ((None, None), cache(gitIgnorePath \<mapsto> None),
                        [CallStat gitIgnorePath, CallCompileIgnoreFile gitIgnorePath])
                   | Inr matcher \<Rightarrow>
                       ((Some matcher, None), cache(gitIgnorePath \<mapsto> Some matcher),
                        [CallStat gitIgnorePath, CallCompileIgnoreFile gitIgnorePath]))
              | Some statErr \<Rightarrow>
                  ((None, None), cache(gitIgnorePath \<mapsto> None), [CallStat gitIgnorePath])))"

subsection \<open>The file system as the walk and the tree builder see it\<close>

text \<open>
  A node is what \<open>os.Lstat\<close> or the parent's listing gives for a path (the entry) and what
  \<open>os.ReadDir\<close> gives for it: the entries it returns, in the order it returns them (by
  file name), and its error.
\<close>

datatype fsnode = FsNode (fs_entry: DirEntry) (fs_listing: "fsnode list")
  (fs_listErr: "go_error option")

subsection \<open>\<open>filepath.WalkDir\<close>\<close>

text \<open>
  \<open>walkDir\<close> of the Go library with the callback as a parameter; the state of the callback
  is threaded through. \<open>walkEntries\<close> is its loop over the listing.
\<close>

function
  walkDir :: "(string \<Rightarrow> DirEntry \<Rightarrow> go_error option \<Rightarrow> 's \<Rightarrow> go_error option \<times> 's)
     \<Rightarrow> string \<Rightarrow> fsnode \<Rightarrow> 's \<Rightarrow> go_error option \<times> 's"
and
  walkEntries :: "(string \<Rightarrow> DirEntry \<Rightarrow> go_error option \<Rightarrow> 's \<Rightarrow> go_error option \<times> 's)
     \<Rightarrow> string \<Rightarrow> fsnode list \<Rightarrow> 's \<Rightarrow> go_error option \<times> 's"
where
  "walkDir fn path node st =
     (case fn path (fs_entry node) None st of
        (err, st1) \<Rightarrow>
          if err \<noteq> None \<or> \<not> de_IsDir (fs_entry node) then
            (if err = Some SkipDir \<and> de_IsDir (fs_entry node) then (None, st1) else (err, st1))
          else
            (case fs_listErr node of
               None \<Rightarrow> walkEntries fn path (fs_listing node) st1
             | Some readErr \<Rightarrow>
                 (case fn path (fs_entry node) (Some readErr) st1 of
                    (err2, st2) \<Rightarrow>
                      if err2 \<noteq> None then
                        (if err2 = Some SkipDir \<and> de_IsDir (fs_entry node) then (None, st2)
                         else (err2, st2))
                      else walkEntries fn path (fs_listing node) st2)))"
| "walkEntries fn path [] st = (None, st)"
| "walkEntries fn path (d1 # rest) st =
     (case walkDir fn (Join path (de_Name (fs_entry d1))) d1 st of
        (err, st1) \<Rightarrow>
          (case err of
             None \<Rightarrow> walkEntries fn path rest st1
           | Some e \<Rightarrow> if e = SkipDir then (None, st1) else (Some e, st1)))"
  by pat_completeness auto
termination
  by (relation "measure (\<lambda>x. case x of
         Inl (fn, path, node, st) \<Rightarrow> 2 * size node
       | Inr (fn, path, nodes, st) \<Rightarrow> 2 * size_list size nodes + 1)")
     (auto, (case_tac node, simp)+)

declare walkDir.simps [simp del]

definition WalkDir ::
  "(string \<Rightarrow> DirEntry \<Rightarrow> go_error option \<Rightarrow> 's \<Rightarrow> go_error option \<times> 's)
     \<Rightarrow> string \<Rightarrow> fsnode \<Rightarrow> 's \<Rightarrow> go_error option \<times> 's" where
  "WalkDir fn root rootNode st =
     (case walkDir fn root rootNode st of
        (err, st1) \<Rightarrow> if err = Some SkipDir then (None, st1) else (err, st1))"

subsection \<open>The walk of \<open>Processor.Process\<close>\<close>

text \<open>
  The loop of the callback that collects the matchers from \<open>currentDir\<close> up to the base
  path, deepest first; every step goes through the cache.
\<close>

function collectMatchers ::
  "gitignoreFS \<Rightarrow> string \<Rightarrow> string \<Rightarrow> gitIgnoreCache \<Rightarrow> GitIgnore list
     \<Rightarrow> GitIgnore list \<times> gitIgnoreCache" where
  "collectMatchers fsys basePath currentDir cache pathStack =
     (if HasPrefix currentDir basePath \<and> currentDir \<noteq> [] then
        (case compileAndCacheGitIgnore fsys cache currentDir of
           ((matcher, err), cache1, calls) \<Rightarrow>
             (let pathStack1 = (case matcher of Some m \<Rightarrow> pathStack @ [m] | None \<Rightarrow> pathStack)
              in if currentDir = basePath then (pathStack1, cache1)
                 else if Dir currentDir = currentDir then (pathStack1, cache1)
                 else collectMatchers fsys basePath (Dir currentDir) cache1 pathStack1))
      else (pathStack, cache))"
  by pat_completeness auto
termination
proof (relation "measure (\<lambda>(fsys, basePath, currentDir, cache, pathStack).
    length currentDir + (if currentDir = ''.'' then 0 else 1))", goal_cases)
  case 1
  show ?case by simp
next
  case (2 fsys basePath currentDir)
  let ?dw = "dropWhile (\<lambda>c. \<not> isSep c) (rev currentDir)"
  have ne: "Dir currentDir \<noteq> currentDir"
    using 2 by auto
  show ?case
  proof (cases ?dw)
    case Nil
    then have "Dir currentDir = ''.''"
      by (simp add: Dir_def)
    with ne 2 show ?thesis
      by (cases currentDir) auto
  next
    case (Cons a rest)
    then have sep: "isSep a"
      using hd_dropWhile[of "\<lambda>c. \<not> isSep c" "rev currentDir"] by auto
    have "a \<in> set ?dw"
      using Cons by simp
    then have mem: "a \<in> set currentDir"
      using set_dropWhileD by fastforce
    have "length ?dw \<le> length currentDir"
      using length_dropWhile_le[of "\<lambda>c. \<not> isSep c" "rev currentDir"] by simp
    then have rest: "Suc (length rest) \<le> length currentDir"
      using Cons by simp
    have strip: "stripTrailingSeps (rev ?dw) = rev (dropWhile isSep rest)"
      using Cons sep by (simp add: stripTrailingSeps_def)
    have short: "Suc (length (dropWhile isSep rest)) \<le> length currentDir"
      using rest length_dropWhile_le[of isSep rest] by simp
    have nodot: "currentDir \<noteq> ''.''"
      using mem sep by (auto simp: isSep_def)
    show ?thesis
    proof (cases "dropWhile isSep rest = []")
      case True
      then have dir: "Dir currentDir = ''/''"
        using Cons strip by (auto simp: Dir_def Let_def)
      have "2 \<le> length currentDir"
      proof (cases currentDir)
        case Nil
        with mem show ?thesis by simp
      next
        case outer: (Cons c cs)
        show ?thesis
        proof (cases cs)
          case Nil
          with outer mem sep have "currentDir = ''/''"
            by (simp add: isSep_def)
          with ne dir show ?thesis by simp
        next
          case (Cons c2 cs2)
          with outer show ?thesis by simp
        qed
      qed
      with dir nodot show ?thesis by simp
    next
      case False
      then have "Dir currentDir = rev (dropWhile isSep rest)"
        using Cons strip by (auto simp: Dir_def Let_def)
      with short nodot show ?thesis by auto
    qed
  qed
qed

declare collectMatchers.simps [simp del]

text \<open>
  The callback handed to \<open>filepath.WalkDir\<close>. Its state is the cache and the blocks
  written so far; a block is the relative path of its header and the absolute path the
  content is read from. Writes to the output are taken to succeed.
\<close>

type_synonym walkState = "gitIgnoreCache \<times> (string \<times> string) list"

definition walkFn ::
  "(string \<Rightarrow> string \<Rightarrow> bool) \<Rightarrow> gitignoreFS \<Rightarrow> FileFilter \<Rightarrow> string
     \<Rightarrow> string \<Rightarrow> DirEntry \<Rightarrow> go_error option \<Rightarrow> walkState \<Rightarrow> go_error option \<times> walkState" where
  "walkFn Match fsys ff basePath currentPath d walkPathErr st =
     (case st of (cache, written) \<Rightarrow>
        (case walkPathErr of
           Some e \<Rightarrow>
             if de_IsDir d \<and> e = ErrPermission then (Some SkipDir, st) else (None, st)
         | None \<Rightarrow>
             (let currentDir = (if \<not> de_IsDir d then Dir currentPath else currentPath)
              in case collectMatchers fsys basePath currentDir cache [] of
                   (pathStack, cache1) \<Rightarrow>
                     (let currentActiveIgnores = rev pathStack
                      in case IsExcluded Match ff currentPath d (map Some currentActiveIgnores) of
                           (excluded, filterErr) \<Rightarrow>
                             (case filterErr of
                                Some fe \<Rightarrow>
                                  if fe = SkipDir then (Some SkipDir, (cache1, written))
                                  else (None, (cache1, written))
                              | None \<Rightarrow>
                                  if excluded then
                                    (if de_IsDir d then (Some SkipDir, (cache1, written))
                                     else (None, (cache1, written)))
                                  else if de_IsDir d then (None, (cache1, written))
                                  else (case Rel basePath currentPath of
                                          Inl relErr \<Rightarrow> (None, (cache1, written))
                                        | Inr relPath \<Rightarrow>
                                            (None, (cache1,
                                               written @ [(ToSlash relPath, currentPath)]))))))))"

subsection \<open>The tree builder\<close>

datatype treeNode = TreeNode (tn_name: string) (tn_isDir: bool) (tn_children: "treeNode list")

text \<open>The four prefixes, as UTF-8 bytes: three box-drawing glyphs and a space each.\<close>

definition treePrefixEntry :: string where
  "treePrefixEntry = [CHR 0xE2, CHR 0x94, CHR 0x9C, CHR 0xE2, CHR 0x94, CHR 0x80,
     CHR 0xE2, CHR 0x94, CHR 0x80, CHR 0x20]"

definition treePrefixLast :: string where
  "treePrefixLast = [CHR 0xE2, CHR 0x94, CHR 0x94, CHR 0xE2, CHR 0x94, CHR 0x80,
     CHR 0xE2, CHR 0x94, CHR 0x80, CHR 0x20]"

definition treePrefixContinue :: string where
  "treePrefixContinue = [CHR 0xE2, CHR 0x94, CHR 0x82, CHR 0x20, CHR 0x20, CHR 0x20]"

definition treePrefixEmpty :: string where
  "treePrefixEmpty = [CHR 0x20, CHR 0x20, CHR 0x20, CHR 0x20]"

text \<open>The comparison handed to \<open>sort.Slice\<close>: directories first, then lower-cased names.\<close>

definition entryLess :: "DirEntry \<Rightarrow> DirEntry \<Rightarrow> bool" where
  "entryLess a b =
     (if de_IsDir a \<noteq> de_IsDir b then de_IsDir a
      else ToLower (de_Name a) < ToLower (de_Name b))"

text \<open>
  \<open>sort.Slice\<close> as the insertion sort that Go runs on slices of up to twelve elements:
  each element moves left while it is less than its left neighbour. On longer slices Go
  runs a sort that is not stable, whose result can differ in the order of entries that
  compare equal. \<open>moveLeft\<close> works on the sorted part, nearest neighbour first.
\<close>

fun moveLeft :: "('a \<Rightarrow> 'a \<Rightarrow> bool) \<Rightarrow> 'a \<Rightarrow> 'a list \<Rightarrow> 'a list" where
  "moveLeft lt x [] = [x]"
| "moveLeft lt x (y # ys) = (if lt x y then y # moveLeft lt x ys else x # y # ys)"

fun insertionSort :: "('a \<Rightarrow> 'a \<Rightarrow> bool) \<Rightarrow> 'a list \<Rightarrow> 'a list \<Rightarrow> 'a list" where
  "insertionSort lt [] sortedRev = rev sortedRev"
| "insertionSort lt (x # xs) sortedRev = insertionSort lt xs (moveLeft lt x sortedRev)"

definition sortSlice :: "('a \<Rightarrow> 'a \<Rightarrow> bool) \<Rightarrow> 'a list \<Rightarrow> 'a list" where
  "sortSlice lt xs = insertionSort lt xs []"

definition sortEntries :: "fsnode list \<Rightarrow> fsnode list" where
  "sortEntries entries = sortSlice (\<lambda>a b. entryLess (fs_entry a) (fs_entry b)) entries"

text \<open>
  \<open>TreeBuilder.buildNodeRecursive\<close>: the children appended to the parent node, and the
  cache after the call. \<open>buildEntries\<close> is the loop over the sorted entries.
\<close>

definition extendIgnores :: "GitIgnore list \<Rightarrow> GitIgnore option \<Rightarrow> GitIgnore list" where
  "extendIgnores parentActiveIgnores currentDirGitIgnore =
     (case currentDirGitIgnore of
        None \<Rightarrow> parentActiveIgnores
      | Some g \<Rightarrow>
          if parentActiveIgnores \<noteq> [] \<and> addr (last parentActiveIgnores) = addr g
          then parentActiveIgnores
          else parentActiveIgnores @ [g])"

function
  buildNodeRecursive :: "(string \<Rightarrow> string \<Rightarrow> bool) \<Rightarrow> gitignoreFS \<Rightarrow> FileFilter \<Rightarrow> string
     \<Rightarrow> fsnode \<Rightarrow> GitIgnore list \<Rightarrow> gitIgnoreCache \<Rightarrow> treeNode list \<times> gitIgnoreCache"
and
  buildEntries :: "(string \<Rightarrow> string \<Rightarrow> bool) \<Rightarrow> gitignoreFS \<Rightarrow> FileFilter \<Rightarrow> string
     \<Rightarrow> fsnode list \<Rightarrow> GitIgnore list \<Rightarrow> gitIgnoreCache \<Rightarrow> treeNode list \<times> gitIgnoreCache"
where
  "buildNodeRecursive Match fsys ff currentDirPath dirNode parentActiveIgnores cache =
     (case fs_listErr dirNode of
        Some err \<Rightarrow> ([], cache)
      | None \<Rightarrow>
          (case compileAndCacheGitIgnore fsys cache currentDirPath of
             ((currentDirGitIgnore, cerr), cache1, calls) \<Rightarrow>
               buildEntries Match fsys ff currentDirPath (sortEntries (fs_listing dirNode))
                 (extendIgnores parentActiveIgnores currentDirGitIgnore) cache1))"
| "buildEntries Match fsys ff currentDirPath [] currentActiveIgnores cache = ([], cache)"
| "buildEntries Match fsys ff currentDirPath (e # es) currentActiveIgnores cache =
     (case IsExcluded Match ff (Join currentDirPath (de_Name (fs_entry e))) (fs_entry e)
             (map Some currentActiveIgnores) of
        (excluded, filterErr) \<Rightarrow>
          if filterErr \<noteq> None then
            buildEntries Match fsys ff currentDirPath es currentActiveIgnores cache
          else if excluded then
            buildEntries Match fsys ff currentDirPath es currentActiveIgnores cache
          else if de_IsDir (fs_entry e) then
            (case buildNodeRecursive Match fsys ff (Join currentDirPath (de_Name (fs_entry e))) e
                    currentActiveIgnores cache of
               (kids, cache1) \<Rightarrow>
                 (case buildEntries Match fsys ff currentDirPath es currentActiveIgnores cache1 of
                    (nodes, cache2) \<Rightarrow>
                      (TreeNode (de_Name (fs_entry e)) True kids # nodes, cache2)))
          else
            (case buildEntries Match fsys ff currentDirPath es currentActiveIgnores cache of
               (nodes, cache1) \<Rightarrow> (TreeNode (de_Name (fs_entry e)) False [] # nodes, cache1)))"
  by pat_completeness auto
termination
proof (relation "measure (\<lambda>x. case x of
         Inl (Match, fsys, ff, path, node, act, cache) \<Rightarrow> 2 * size node
       | Inr (Match, fsys, ff, path, nodes, act, cache) \<Rightarrow> 2 * size_list size nodes + 1)",
    goal_cases)
  case 1
  show ?case by simp
next
  case (2 Match fsys ff currentDirPath dirNode)
  have ml: "size_list f (moveLeft lt x ys) = Suc (f x + size_list f ys)"
    for f :: "fsnode \<Rightarrow> nat" and lt x ys
    by (induction ys) auto
  have rv: "size_list f (rev xs) = size_list f xs"
    for f :: "fsnode \<Rightarrow> nat" and xs
    by (induction xs) auto
  have ins: "size_list f (insertionSort lt xs acc) = size_list f xs + size_list f acc"
    for f :: "fsnode \<Rightarrow> nat" and lt xs acc
    by (induction xs arbitrary: acc) (auto simp: ml rv)
  show ?case
    by (cases dirNode) (simp add: sortEntries_def sortSlice_def ins)
next
  case 3
  then show ?case by simp
next
  case 4
  then show ?case by simp
next
  case 5
  then show ?case by simp
next
  case 6
  then show ?case by simp
next
  case 7
  then show ?case by simp
qed

declare buildNodeRecursive.simps [simp del]

text \<open>
  \<open>TreeBuilder.writeNodeRecursive\<close>: the text written to the builder for the children,
  the loop index kept as in the source.
\<close>

function writeNodeRecursive :: "treeNode list \<Rightarrow> string \<Rightarrow> string" where
  "writeNodeRecursive children pfx =
     concat (map (\<lambda>(i, child).
       (let connector = (if i = length children - 1 then treePrefixLast else treePrefixEntry);
            nextPrefixElement =
              (if i = length children - 1 then treePrefixEmpty else treePrefixContinue)
        in pfx @ connector @ tn_name child @ [CHR 0x0A] @
           (if tn_isDir child \<and> tn_children child \<noteq> []
            then writeNodeRecursive (tn_children child) (pfx @ nextPrefixElement)
            else [])))
       (enumerate 0 children))"
  by pat_completeness auto
termination
proof (relation "measure (\<lambda>(children, pfx). size_list size children)", goal_cases)
  case 1
  show ?case by simp
next
  case (2 children pfx ic i child)
  then have "child \<in> set children"
    by (auto simp: in_set_enumerate_eq)
  then have "size child \<le> size_list size children"
    by (simp add: size_list_estimation')
  moreover have "size_list size (tn_children child) < size child"
    by (cases child) simp
  ultimately show ?case by simp
qed

declare writeNodeRecursive.simps [simp del]

text \<open>
  \<open>TreeBuilder.BuildTreeString\<close>; \<open>buildRoot\<close> is its first part, which builds the root
  node. \<open>filepath.Abs\<close> is the identity on the absolute base path.
\<close>

definition buildRoot ::
  "(string \<Rightarrow> string \<Rightarrow> bool) \<Rightarrow> gitignoreFS \<Rightarrow> FileFilter \<Rightarrow> string \<Rightarrow> fsnode
     \<Rightarrow> gitIgnoreCache \<Rightarrow> treeNode \<times> gitIgnoreCache" where
  "buildRoot Match fsys ff basePath dirNode cache =
     (case compileAndCacheGitIgnore fsys cache basePath of
        ((rootGitIgnore, cerr), cache1, calls) \<Rightarrow>
          (case buildNodeRecursive Match fsys ff basePath dirNode
                  (case rootGitIgnore of Some g \<Rightarrow> [g] | None \<Rightarrow> []) cache1 of
             (kids, cache2) \<Rightarrow> (TreeNode (Base basePath) True kids, cache2)))"

definition BuildTreeString ::
  "(string \<Rightarrow> string \<Rightarrow> bool) \<Rightarrow> gitignoreFS \<Rightarrow> FileFilter \<Rightarrow> string \<Rightarrow> fsnode
     \<Rightarrow> gitIgnoreCache \<Rightarrow> string \<times> gitIgnoreCache" where
  "BuildTreeString Match fsys ff basePath dirNode cache =
     (case buildRoot Match fsys ff basePath dirNode cache of
        (rootNode, cache1) \<Rightarrow>
          (tn_name rootNode @ [CHR 0x0A] @ writeNodeRecursive (tn_children rootNode) [], cache1))"

subsection \<open>\<open>Processor.Process\<close>\<close>

text \<open>
  The part of \<open>Process\<close> between the set-up of the paths and the renaming of the output:
  the tree (when asked for), then the walk, on one cache that starts empty. The result is
  the tree string and the blocks written.
\<close>

definition Process ::
  "(string \<Rightarrow> string \<Rightarrow> bool) \<Rightarrow> gitignoreFS \<Rightarrow> FileFilter \<Rightarrow> string \<Rightarrow> bool \<Rightarrow> fsnode
     \<Rightarrow> string option \<times> (string \<times> string) list" where
  "Process Match fsys ff basePath includeTree rootNode =
     (case (if includeTree then
              (case BuildTreeString Match fsys ff basePath rootNode Map.empty of
                 (treeStr, c) \<Rightarrow> (Some treeStr, c))
            else (None, Map.empty)) of
        (tree, cache1) \<Rightarrow>
          (case compileAndCacheGitIgnore fsys cache1 basePath of
             (r, cache2, calls) \<Rightarrow>
               (case WalkDir (walkFn Match fsys ff basePath) basePath rootNode (cache2, []) of
                  (walkErr, (cache3, written)) \<Rightarrow> (tree, written))))"

subsection \<open>What the tree and the walk show\<close>

text \<open>
  The relative paths of the files a list of tree nodes shows, top to bottom, and the
  absolute paths of all the nodes below a directory path, top to bottom.
\<close>

fun nodeFiles :: "treeNode \<Rightarrow> string list" where
  "nodeFiles (TreeNode n d cs) =
     (if d then map (\<lambda>p. n @ ''/'' @ p) (concat (map nodeFiles cs)) else [n])"

definition treeFiles :: "treeNode \<Rightarrow> string list" where
  "treeFiles rootNode = concat (map nodeFiles (tn_children rootNode))"

fun nodePaths :: "string \<Rightarrow> treeNode \<Rightarrow> string list" where
  "nodePaths dir (TreeNode n d cs) = Join dir n # concat (map (nodePaths (Join dir n)) cs)"

definition treePaths :: "string \<Rightarrow> treeNode \<Rightarrow> string list" where
  "treePaths basePath rootNode = concat (map (nodePaths basePath) (tn_children rootNode))"

text \<open>
  The two orders: all the paths of the file system below a directory, depth first, the
  entries of each directory in the order of its listing (the walk order), and the same
  with each listing sorted as the tree builder sorts it (the tree order).
\<close>

fun walkOrder :: "string \<Rightarrow> fsnode \<Rightarrow> string list" where
  "walkOrder path (FsNode e l r) =
     path # concat (map (\<lambda>k. walkOrder (Join path (de_Name (fs_entry k))) k) l)"

function treeOrder :: "string \<Rightarrow> fsnode \<Rightarrow> string list" where
  "treeOrder path (FsNode e l r) =
     path # concat (map (\<lambda>k. treeOrder (Join path (de_Name (fs_entry k))) k) (sortEntries l))"
  by pat_completeness auto
termination
proof (relation "measure (\<lambda>(path, node). size node)", goal_cases)
  case 1
  show ?case by simp
next
  case (2 path e l r k)
  have ml: "set (moveLeft lt x ys) = insert x (set ys)"
    for lt :: "fsnode \<Rightarrow> fsnode \<Rightarrow> bool" and x ys
    by (induction ys) auto
  have ins: "set (insertionSort lt xs acc) = set xs \<union> set acc"
    for lt :: "fsnode \<Rightarrow> fsnode \<Rightarrow> bool" and xs acc
    by (induction xs arbitrary: acc) (auto simp: ml)
  from 2 have "k \<in> set l"
    by (simp add: sortEntries_def sortSlice_def ins)
  then have "size k \<le> size_list size l"
    by (simp add: size_list_estimation')
  then show ?case by simp
qed



subsection \<open>Sample inputs\<close>

text \<open>
  A glob matcher for patterns of literal bytes, \<open>*\<close> and (when the flag is set) \<open>?\<close>,
  neither of which crosses a separator. With the flag set it stands for \<open>filepath.Match\<close>
  on the patterns of the examples below, none of which has a bracket or a backslash.
\<close>

fun wildMatch :: "bool \<Rightarrow> string \<Rightarrow> string \<Rightarrow> bool" where
  "wildMatch q [] name = (name = [])"
| "wildMatch q (p # ps) [] = (p = CHR ''*'' \<and> wildMatch q ps [])"
| "wildMatch q (p # ps) (c # cs) =
     (if p = CHR ''*'' then wildMatch q ps (c # cs) \<or> (\<not> isSep c \<and> wildMatch q (p # ps) cs)
      else (p = c \<or> (q \<and> p = CHR ''?'' \<and> \<not> isSep c)) \<and> wildMatch q ps cs)"

definition globMatch :: "string \<Rightarrow> string \<Rightarrow> bool" where
  "globMatch pattern name = wildMatch True pattern name"

text \<open>
  The matcher that the library go-gitignore compiles from a file whose lines have no
  separator: a line matches a path when one element of the path matches it (\<open>*\<close> is any
  run of non-separator bytes); \<open>MatchesPath\<close> scans the lines in order, a matching line
  sets the verdict and a matching negated line (\<open>!\<close>) clears it.
\<close>

datatype IgnorePattern = IgnorePattern (Pattern: string) (Negate: bool)

definition lineMatches :: "string \<Rightarrow> string \<Rightarrow> bool" where
  "lineMatches line f = list_ex (wildMatch False line) (splitSep f [])"

fun matchesPathLoop :: "IgnorePattern list \<Rightarrow> string \<Rightarrow> bool \<Rightarrow> bool" where
  "matchesPathLoop [] f matchesPath = matchesPath"
| "matchesPathLoop (ip # ips) f matchesPath =
     matchesPathLoop ips f
       (if lineMatches (Pattern ip) f then
          (if \<not> Negate ip then True else if matchesPath then False else matchesPath)
        else matchesPath)"

definition CompileIgnoreLines :: "nat \<Rightarrow> IgnorePattern list \<Rightarrow> GitIgnore" where
  "CompileIgnoreLines a ips = GitIgnore a (\<lambda>f. matchesPathLoop ips f False)"

text \<open>Directory entries as the tests build them (\<open>newMockFile\<close>, \<open>newMockDir\<close>).\<close>

definition newMockFile :: "string \<Rightarrow> int \<Rightarrow> FileMode \<Rightarrow> DirEntry" where
  "newMockFile name sz mode =
     (let m = (if mode = 0 then 0x1A4 else mode)
      in \<lparr> de_Name = name, de_IsDir = False, de_Type = m AND ModeType,
           de_Info = Inr \<lparr> fi_Name = name, fi_Size = sz, fi_Mode = m, fi_IsDir = False \<rparr> \<rparr>)"

definition newMockDir :: "string \<Rightarrow> FileMode \<Rightarrow> DirEntry" where
  "newMockDir name mode =
     (let m = (if mode = 0 then 0x1ED OR ModeDir else mode OR ModeDir)
      in \<lparr> de_Name = name, de_IsDir = True, de_Type = m AND ModeType,
           de_Info = Inr \<lparr> fi_Name = name, fi_Size = 0, fi_Mode = m, fi_IsDir = True \<rparr> \<rparr>)"

text \<open>A symbolic link whose \<open>Info\<close> fails because the link has gone.\<close>

definition brokenLink :: "string \<Rightarrow> DirEntry" where
  "brokenLink name =
     \<lparr> de_Name = name, de_IsDir = False, de_Type = ModeSymlink, de_Info = Inl ErrNotExist \<rparr>"

text \<open>
  The filter of a run on \<open>/p\<close> with the default flags (limit 1MB), writing to
  \<open>/p/out.txt\<close>, and the same with \<open>.log\<close> taken out of the miscellaneous extensions, as
  the tests of the gitignore rules do to see those rules alone.
\<close>

definition sampleFilter :: FileFilter where
  "sampleFilter = NewFileFilter ''/p'' (filterConfigOf 1048576 [] [] [] False ''/p/out.txt'')"

definition removeStringFromSlice :: "string list \<Rightarrow> string \<Rightarrow> string list" where
  "removeStringFromSlice xs item = filter (\<lambda>s. s \<noteq> item) xs"

definition withoutMiscLog :: "FileFilter \<Rightarrow> FileFilter" where
  "withoutMiscLog ff =
     ff\<lparr>ff_config := (ff_config ff)
          \<lparr>DefaultMiscellaneousExtensions :=
             removeStringFromSlice (DefaultMiscellaneousExtensions (ff_config ff)) ''.log''\<rparr>\<rparr>"

definition rootIgnore :: GitIgnore where
  "rootIgnore = CompileIgnoreLines 1 [IgnorePattern ''*.log'' False]"

definition subIgnore :: GitIgnore where
  "subIgnore = CompileIgnoreLines 2
     [IgnorePattern ''important.log'' True, IgnorePattern ''*.txt'' False]"

definition unlimited :: "FileFilter \<Rightarrow> FileFilter" where
  "unlimited ff = ff\<lparr>ff_config := (ff_config ff)\<lparr>MaxFileSize := 0\<rparr>\<rparr>"

text \<open>The filter of a run on \<open>/p\<close> with \<open>--exclude-exts\<close> given.\<close>

definition filterWithExts :: "string \<Rightarrow> FileFilter" where
  "filterWithExts excludeExtsRaw =
     withoutMiscLog
       (NewFileFilter ''/p'' (filterConfigOf 1048576 [] excludeExtsRaw [] False ''/p/out.txt''))"



text \<open>A file system without any \<open>.gitignore\<close>, and one whose \<open>/p/.gitignore\<close> does not parse.\<close>

definition noGitignore :: gitignoreFS where
  "noGitignore =
     \<lparr> Stat = (\<lambda>p. Some ErrNotExist), CompileIgnoreFile = (\<lambda>p. Inl ErrNotExist) \<rparr>"

definition brokenGitignore :: gitignoreFS where
  "brokenGitignore =
     \<lparr> Stat = (\<lambda>p. if p = ''/p/.gitignore'' then None else Some ErrNotExist),
       CompileIgnoreFile = (\<lambda>p. Inl ErrOther) \<rparr>"

definition mockFileNode :: "string \<Rightarrow> int \<Rightarrow> fsnode" where
  "mockFileNode nm sz = FsNode (newMockFile nm sz 0) [] None"

definition mockDirNode :: "string \<Rightarrow> fsnode list \<Rightarrow> fsnode" where
  "mockDirNode nm l = FsNode (newMockDir nm 0) l None"

text \<open>
  The directory \<open>/p\<close> with the file \<open>a.go\<close>, the directory \<open>b\<close> holding \<open>c.go\<close>, and the
  output file \<open>out.txt\<close> of an earlier run, listed by name.
\<close>

definition orderTree :: fsnode where
  "orderTree = mockDirNode ''p''
     [mockFileNode ''a.go'' 3, mockDirNode ''b'' [mockFileNode ''c.go'' 4],
      mockFileNode ''out.txt'' 9]"

text \<open>
  A run on the directory \<open>/w/build\<close>, which holds \<open>main.go\<close>, writing to \<open>/w/out.txt\<close>.
\<close>

definition buildDirTree :: fsnode where
  "buildDirTree = mockDirNode ''build'' [mockFileNode ''main.go'' 3]"

definition buildDirFilter :: FileFilter where
  "buildDirFilter =
     NewFileFilter ''/w/build'' (filterConfigOf 1048576 [] [] [] False ''/w/out.txt'')"

section \<open>Properties\<close>

subsection \<open>The loops of the filter\<close>

lemma userExtLoop_filter: "userExtLoop e (filter (\<lambda>x. x \<noteq> []) xs) = userExtLoop e xs"
  by (induction xs) auto

lemma userExtLoop_empty_ext: "userExtLoop [] xs = False"
  by (induction xs) auto

lemma userGlobLoop_filter:
  "userGlobLoop M r b (filter (\<lambda>x. x \<noteq> []) xs) = userGlobLoop M r b xs"
  by (induction xs) auto

lemma fileRules_over_limit:
  "0 < MaxFileSize cfg \<Longrightarrow> MaxFileSize cfg < fi_Size info \<Longrightarrow>
   fileRules M cfg info a r b = True"
  by (simp add: fileRules_def split del: if_split cong: if_cong)

lemma fileRules_no_limit:
  "MaxFileSize cfg = 0 \<Longrightarrow>
   fileRules M cfg (info\<lparr>fi_Size := s\<rparr>) a r b = fileRules M cfg info a r b"
  by (simp add: fileRules_def split del: if_split cong: if_cong)

lemma fileRules_at_limit:
  "fi_Size info = MaxFileSize cfg \<Longrightarrow>
   fileRules M cfg info a r b = fileRules M (cfg\<lparr>MaxFileSize := 0\<rparr>) info a r b"
  by (simp add: fileRules_def split del: if_split cong: if_cong)

lemma fileRules_drop_empty:
  "fileRules M (cfg\<lparr>UserExcludeExts := filter (\<lambda>e. e \<noteq> []) (UserExcludeExts cfg),
         UserExcludeGlobs := filter (\<lambda>g. g \<noteq> []) (UserExcludeGlobs cfg)\<rparr>) info a r b
   = fileRules M cfg info a r b"
  by (simp add: fileRules_def userExtLoop_filter userGlobLoop_filter
      split del: if_split cong: if_cong)

lemma fileRules_no_ext:
  "Ext a = [] \<Longrightarrow>
   fileRules M (cfg\<lparr>UserExcludeExts := []\<rparr>) info a r b = fileRules M cfg info a r b"
  by (simp add: fileRules_def userExtLoop_empty_ext ToLower_def
      split del: if_split cong: if_cong)

lemma mock_info:
  "de_Info (newMockFile nm sz 0) =
     Inr \<lparr>fi_Name = nm, fi_Size = sz, fi_Mode = 0x1A4, fi_IsDir = False\<rparr>"
  by (simp add: newMockFile_def)

lemma sample_limit: "MaxFileSize (ff_config sampleFilter) = 1048576"
  by (simp add: sampleFilter_def NewFileFilter_def filterConfigOf_def)

lemma sample_output: "ff_absFinalOutputFilePath sampleFilter = ''/p/out.txt''"
  by (simp add: sampleFilter_def NewFileFilter_def filterConfigOf_def)

subsection \<open>Symbolic links\<close>

text \<open>
  Claim C7. An entry whose file information carries the symlink mode bit is reported
  excluded with a nil error, whatever the path, the filter and the active matchers are;
  and an entry of symlink type whose \<open>Info\<close> fails because the file does not exist (a broken
  link) is reported excluded with a nil error as well, not as an error.
\<close>

theorem symlink_always_excluded:
  "(de_Info d = Inr info \<longrightarrow> fi_Mode info AND ModeSymlink \<noteq> 0 \<longrightarrow>
      IsExcluded Match ff absPath d gs = (True, None)) \<and>
   (de_Info d = Inl err \<longrightarrow> de_Type d AND ModeSymlink \<noteq> 0 \<longrightarrow> IsNotExist err \<longrightarrow>
      IsExcluded Match ff absPath d gs = (True, None))"
  by (simp add: IsExcluded_def Let_def)

theorem symlink_always_excluded_witness:
  "IsExcluded globMatch sampleFilter ''/p/lnk'' (newMockFile ''lnk'' 0 ModeSymlink) [] = (True, None)
   \<and> IsExcluded globMatch sampleFilter ''/p/gone'' (brokenLink ''gone'') [] = (True, None)"
proof -
  have nz: "ModeSymlink \<noteq> 0" "ModeSymlink AND ModeSymlink \<noteq> 0"
    by (simp_all add: ModeSymlink_def)
  have i: "de_Info (newMockFile ''lnk'' 0 ModeSymlink) =
      Inr \<lparr>fi_Name = ''lnk'', fi_Size = 0, fi_Mode = ModeSymlink, fi_IsDir = False\<rparr>"
    using nz by (simp add: newMockFile_def)
  have a: "IsExcluded globMatch sampleFilter ''/p/lnk'' (newMockFile ''lnk'' 0 ModeSymlink) []
             = (True, None)"
    using symlink_always_excluded[where d="newMockFile ''lnk'' 0 ModeSymlink"
        and info="\<lparr>fi_Name = ''lnk'', fi_Size = 0, fi_Mode = ModeSymlink, fi_IsDir = False\<rparr>"
        and Match=globMatch and ff=sampleFilter and absPath="''/p/lnk''" and gs="[]"] i nz
    by simp
  have b: "IsExcluded globMatch sampleFilter ''/p/gone'' (brokenLink ''gone'') [] = (True, None)"
    using symlink_always_excluded[where d="brokenLink ''gone''" and err=ErrNotExist
        and Match=globMatch and ff=sampleFilter and absPath="''/p/gone''" and gs="[]"] nz
    by (simp add: brokenLink_def IsNotExist_def)
  from a b show ?thesis by simp
qed

subsection \<open>The size limit\<close>

text \<open>
  Claim C4. For a file (an entry whose information is read and is not a directory): when
  the limit is positive and the size is above it, the file is excluded; when the limit is
  zero the verdict does not depend on the size, so no file is excluded for its size; and
  a file whose size equals the limit gets the verdict it gets with the size rule switched
  off (limit zero), so the comparison is strict.
\<close>

theorem max_size_rule:
  assumes "de_Info d = Inr info" and "\<not> fi_IsDir info"
  shows "(0 < MaxFileSize (ff_config ff) \<and> MaxFileSize (ff_config ff) < fi_Size info \<longrightarrow>
            IsExcluded Match ff absPath d gs = (True, None)) \<and>
         (MaxFileSize (ff_config ff) = 0 \<longrightarrow>
            IsExcluded Match ff absPath (d\<lparr>de_Info := Inr (info\<lparr>fi_Size := s\<rparr>)\<rparr>) gs =
            IsExcluded Match ff absPath d gs) \<and>
         (fi_Size info = MaxFileSize (ff_config ff) \<longrightarrow>
            IsExcluded Match ff absPath d gs =
            IsExcluded Match (ff\<lparr>ff_config := (ff_config ff)\<lparr>MaxFileSize := 0\<rparr>\<rparr>) absPath d gs)"
proof (intro conjI impI)
  assume "0 < MaxFileSize (ff_config ff) \<and> MaxFileSize (ff_config ff) < fi_Size info"
  then show "IsExcluded Match ff absPath d gs = (True, None)"
    using assms by (simp add: IsExcluded_def Let_def fileRules_over_limit)
next
  assume "MaxFileSize (ff_config ff) = 0"
  then show "IsExcluded Match ff absPath (d\<lparr>de_Info := Inr (info\<lparr>fi_Size := s\<rparr>)\<rparr>) gs =
            IsExcluded Match ff absPath d gs"
    using assms by (simp add: IsExcluded_def Let_def fileRules_no_limit)
next
  assume "fi_Size info = MaxFileSize (ff_config ff)"
  then show "IsExcluded Match ff absPath d gs =
            IsExcluded Match (ff\<lparr>ff_config := (ff_config ff)\<lparr>MaxFileSize := 0\<rparr>\<rparr>) absPath d gs"
    using assms fileRules_at_limit[of info "ff_config ff"]
    by (simp add: IsExcluded_def Let_def)
qed

theorem max_size_rule_witness:
  "IsExcluded globMatch sampleFilter ''/p/big.go'' (newMockFile ''big.go'' 2000000 0) []
     = (True, None)
   \<and> IsExcluded globMatch (unlimited sampleFilter) ''/p/big.go''
        (newMockFile ''big.go'' 2000000 0) [] = (False, None)
   \<and> IsExcluded globMatch sampleFilter ''/p/exact.go'' (newMockFile ''exact.go'' 1048576 0) []
       = (False, None)"
proof -
  have a: "IsExcluded globMatch sampleFilter ''/p/big.go'' (newMockFile ''big.go'' 2000000 0) []
      = (True, None)"
    using max_size_rule[OF mock_info[of "''big.go''" 2000000], where ff=sampleFilter
        and Match=globMatch and absPath="''/p/big.go''" and gs="[]"]
    by (simp add: sample_limit)
  have u: "MaxFileSize (ff_config (unlimited sampleFilter)) = 0"
    by (simp add: unlimited_def)
  have small: "IsExcluded globMatch (unlimited sampleFilter) ''/p/big.go''
        (newMockFile ''big.go'' 0 0) [] = (False, None)"
    by code_simp
  have b: "IsExcluded globMatch (unlimited sampleFilter) ''/p/big.go''
        (newMockFile ''big.go'' 2000000 0) [] = (False, None)"
    using max_size_rule[OF mock_info[of "''big.go''" 0], where ff="unlimited sampleFilter"
        and Match=globMatch and absPath="''/p/big.go''" and s=2000000 and gs="[]"] u small
    by (simp add: newMockFile_def)
  have e: "IsExcluded globMatch (unlimited sampleFilter) ''/p/exact.go''
        (newMockFile ''exact.go'' 1048576 0) [] = (False, None)"
    by code_simp
  have c: "IsExcluded globMatch sampleFilter ''/p/exact.go'' (newMockFile ''exact.go'' 1048576 0) []
       = (False, None)"
    using max_size_rule[OF mock_info[of "''exact.go''" 1048576], where ff=sampleFilter
        and Match=globMatch and absPath="''/p/exact.go''" and gs="[]"] e
    by (simp add: sample_limit unlimited_def)
  from a b c show ?thesis by simp
qed

subsection \<open>Empty entries in the user's lists\<close>

text \<open>
  Claim C10. Empty strings in the user's extension list and in the user's glob list never
  cause an exclusion: the verdict of the filter, for every entry, is the verdict of the
  filter with the empty strings removed from both lists. In particular a file without an
  extension gets the verdict it gets with an empty extension list, whatever the list holds.
\<close>

theorem empty_user_rules_inert:
  "IsExcluded Match
     (ff\<lparr>ff_config := (ff_config ff)
        \<lparr>UserExcludeExts := filter (\<lambda>e. e \<noteq> []) (UserExcludeExts (ff_config ff)),
         UserExcludeGlobs := filter (\<lambda>g. g \<noteq> []) (UserExcludeGlobs (ff_config ff))\<rparr>\<rparr>)
     absPath d gs = IsExcluded Match ff absPath d gs \<and>
   (Ext absPath = [] \<longrightarrow>
      IsExcluded Match (ff\<lparr>ff_config := (ff_config ff)\<lparr>UserExcludeExts := []\<rparr>\<rparr>) absPath d gs =
      IsExcluded Match ff absPath d gs)"
  by (simp add: IsExcluded_def Let_def fileRules_drop_empty fileRules_no_ext
      split: sum.splits)

theorem empty_user_rules_inert_witness:
  "Ext ''/p/Makefile'' = [] \<and>
   UserExcludeExts (ff_config (filterWithExts '','')) = [[], []] \<and>
   IsExcluded globMatch (filterWithExts '','') ''/p/Makefile'' (newMockFile ''Makefile'' 10 0) []
     = (False, None)"
proof -
  have x: "Ext ''/p/Makefile'' = []"
    by code_simp
  have l: "UserExcludeExts (ff_config (filterWithExts '','')) = [[], []]"
    by code_simp
  have n: "IsExcluded globMatch
      ((filterWithExts '','')\<lparr>ff_config := (ff_config (filterWithExts '',''))
         \<lparr>UserExcludeExts := []\<rparr>\<rparr>) ''/p/Makefile'' (newMockFile ''Makefile'' 10 0) []
     = (False, None)"
    by code_simp
  from empty_user_rules_inert[where ff="filterWithExts '',''" and Match=globMatch
      and absPath="''/p/Makefile''" and d="newMockFile ''Makefile'' 10 0" and gs="[]"] x n
  have "IsExcluded globMatch (filterWithExts '','') ''/p/Makefile''
      (newMockFile ''Makefile'' 10 0) [] = (False, None)"
    by simp
  with x l show ?thesis by simp
qed

subsection \<open>The gitignore cascade\<close>

text \<open>Any active matcher that matches excludes the entry, whatever the deeper ones say.\<close>

lemma ignoredFrom_iff:
  "ignoredFrom absPath gs n =
     (\<exists>i < n. \<exists>m. gs ! i = Some m \<and> MatchesPath m absPath)"
proof (induction n)
  case 0
  show ?case by simp
next
  case (Suc n)
  show ?case
    by (cases "gs ! n") (auto simp: Suc less_Suc_eq)
qed

text \<open>
  Claim C1, at its scenario. The root gitignore is \<open>*.log\<close>, the one of \<open>sub\<close> is
  \<open>!important.log\<close> and \<open>*.txt\<close>. The filter reports \<open>sub/important.log\<close> excluded when both
  matchers are active, and included when the matcher of \<open>sub\<close> is active alone: the
  negation makes the deeper matcher say no, and the loop goes on to the root matcher,
  which says yes. So a negation in the deepest gitignore does not override an ancestor.
  The three other paths of the scenario (\<open>sub/other.log\<close>, \<open>sub/data.txt\<close>, \<open>x.log\<close>) are
  excluded.
\<close>

theorem negation_does_not_override_ancestor:
  "IsExcluded globMatch (withoutMiscLog sampleFilter) ''/p/sub/important.log''
     (newMockFile ''important.log'' 2 0) [Some rootIgnore, Some subIgnore] = (True, None)
   \<and> IsExcluded globMatch (withoutMiscLog sampleFilter) ''/p/sub/important.log''
     (newMockFile ''important.log'' 2 0) [Some subIgnore] = (False, None)
   \<and> IsExcluded globMatch (withoutMiscLog sampleFilter) ''/p/sub/other.log''
     (newMockFile ''other.log'' 2 0) [Some rootIgnore, Some subIgnore] = (True, None)
   \<and> IsExcluded globMatch (withoutMiscLog sampleFilter) ''/p/sub/data.txt''
     (newMockFile ''data.txt'' 2 0) [Some rootIgnore, Some subIgnore] = (True, None)
   \<and> IsExcluded globMatch (withoutMiscLog sampleFilter) ''/p/x.log''
     (newMockFile ''x.log'' 2 0) [Some rootIgnore] = (True, None)"
  by code_simp

subsection \<open>The user's extensions\<close>


subsection \<open>The gitignore cache\<close>

lemma compile_hit:
  "cache (Join dirPath ''.gitignore'') = Some m \<Longrightarrow>
   compileAndCacheGitIgnore fsys cache dirPath = ((m, None), cache, [])"
  by (simp add: compileAndCacheGitIgnore_def)

lemma compile_result:
  assumes "compileAndCacheGitIgnore fsys cache dirPath = (r, cache1, calls)"
  shows "cache1 (Join dirPath ''.gitignore'') = Some (fst r)" and "snd r = None"
    and "\<And>k v. cache k = Some v \<Longrightarrow> cache1 k = Some v"
  using assms
  by (auto simp: compileAndCacheGitIgnore_def Let_def split: option.splits sum.splits)

text \<open>
  Claim C6. After a call of \<open>compileAndCacheGitIgnore\<close> for a directory, a second call for
  the same directory returns the same matcher (or the same nil), leaves the cache as it
  is and makes no file-system call, whatever the file system has become; the error
  returned is always nil; the same holds after any call for another directory in
  between. When the \<open>.gitignore\<close> exists and does not compile, the first call stats and
  compiles it once, returns nil with a nil error and caches nil, so it is not tried again.
\<close>

theorem compile_cached_idempotent:
  assumes "compileAndCacheGitIgnore fsys cache dirPath = (r, cache1, calls)"
  shows "compileAndCacheGitIgnore fsys2 cache1 dirPath = (r, cache1, []) \<and>
         snd r = None \<and>
         (\<forall>other r3 cache3 calls3.
            compileAndCacheGitIgnore fsys3 cache1 other = (r3, cache3, calls3) \<longrightarrow>
            compileAndCacheGitIgnore fsys2 cache3 dirPath = (r, cache3, [])) \<and>
         (cache (Join dirPath ''.gitignore'') = None \<and>
          Stat fsys (Join dirPath ''.gitignore'') = None \<and>
          CompileIgnoreFile fsys (Join dirPath ''.gitignore'') = Inl e \<longrightarrow>
            r = (None, None) \<and> cache1 (Join dirPath ''.gitignore'') = Some None \<and>
            calls = [CallStat (Join dirPath ''.gitignore''),
                     CallCompileIgnoreFile (Join dirPath ''.gitignore'')])"
proof (intro conjI allI impI)
  note res = compile_result[OF assms]
  have r: "r = (fst r, None)"
    using res(2) by (cases r) simp
  show "compileAndCacheGitIgnore fsys2 cache1 dirPath = (r, cache1, [])"
    using compile_hit[of cache1 dirPath "fst r" fsys2] res(1) r by simp
  show "snd r = None" by (rule res(2))
  {
    fix other r3 cache3 calls3
    assume "compileAndCacheGitIgnore fsys3 cache1 other = (r3, cache3, calls3)"
    then have "cache3 (Join dirPath ''.gitignore'') = Some (fst r)"
      using compile_result(3) res(1) by blast
    then show "compileAndCacheGitIgnore fsys2 cache3 dirPath = (r, cache3, [])"
      using compile_hit[of cache3 dirPath "fst r" fsys2] r by simp
  }
  {
    assume "cache (Join dirPath ''.gitignore'') = None \<and>
          Stat fsys (Join dirPath ''.gitignore'') = None \<and>
          CompileIgnoreFile fsys (Join dirPath ''.gitignore'') = Inl e"
    then have "r = (None, None) \<and> cache1 (Join dirPath ''.gitignore'') = Some None \<and>
            calls = [CallStat (Join dirPath ''.gitignore''),
                     CallCompileIgnoreFile (Join dirPath ''.gitignore'')]"
      using assms by (auto simp: compileAndCacheGitIgnore_def Let_def)
    then show "r = (None, None)" and "cache1 (Join dirPath ''.gitignore'') = Some None"
      and "calls = [CallStat (Join dirPath ''.gitignore''),
                     CallCompileIgnoreFile (Join dirPath ''.gitignore'')]"
      by simp_all
  }
qed

theorem compile_cached_idempotent_witness:
  "fst (compileAndCacheGitIgnore brokenGitignore Map.empty ''/p'') = (None, None) \<and>
   snd (snd (compileAndCacheGitIgnore brokenGitignore Map.empty ''/p'')) =
     [CallStat ''/p/.gitignore'', CallCompileIgnoreFile ''/p/.gitignore''] \<and>
   compileAndCacheGitIgnore noGitignore
     (fst (snd (compileAndCacheGitIgnore brokenGitignore Map.empty ''/p''))) ''/p'' =
     ((None, None), fst (snd (compileAndCacheGitIgnore brokenGitignore Map.empty ''/p'')), [])"
proof -
  obtain r cache1 calls where
    eq: "compileAndCacheGitIgnore brokenGitignore Map.empty ''/p'' = (r, cache1, calls)"
    by (metis prod.exhaust)
  have j: "Join ''/p'' ''.gitignore'' = ''/p/.gitignore''"
    by (simp add: Join_def isSep_def)
  have "Map.empty (Join ''/p'' ''.gitignore'') = None \<and>
        Stat brokenGitignore (Join ''/p'' ''.gitignore'') = None \<and>
        CompileIgnoreFile brokenGitignore (Join ''/p'' ''.gitignore'') = Inl ErrOther"
    by (simp add: j brokenGitignore_def)
  with compile_cached_idempotent[OF eq, of noGitignore noGitignore ErrOther] eq j
  show ?thesis by simp
qed

subsection \<open>The tree\<close>

lemma moveLeft_set: "set (moveLeft lt x ys) = insert x (set ys)"
  by (induction ys) auto



lemma insertionSort_set: "set (insertionSort lt xs acc) = set xs \<union> set acc"
  by (induction xs arbitrary: acc) (auto simp: moveLeft_set)

lemma sortEntries_set: "set (sortEntries l) = set l"
  by (simp add: sortEntries_def sortSlice_def insertionSort_set)












subsection \<open>The walk and the tree against the file system\<close>

lemma walkOrder_eq:
  "walkOrder path node =
     path # concat (map (\<lambda>k. walkOrder (Join path (de_Name (fs_entry k))) k) (fs_listing node))"
  by (cases node) simp

lemma walk_emits:
  fixes fn :: "string \<Rightarrow> DirEntry \<Rightarrow> go_error option \<Rightarrow> 'c \<times> (string \<times> string) list
     \<Rightarrow> go_error option \<times> 'c \<times> (string \<times> string) list"
  shows "(\<forall>p d e st err st'. fn p d e st = (err, st') \<longrightarrow>
            (\<exists>new. snd st' = snd st @ new \<and>
               (new = [] \<or> (e = None \<and> \<not> de_IsDir d \<and> map snd new = [p] \<and> R p)))) \<Longrightarrow>
         walkDir fn path node st = (err, st') \<Longrightarrow>
         \<exists>new. snd st' = snd st @ new \<and> subseq (map snd new) (walkOrder path node) \<and>
               (\<forall>a \<in> set (map snd new). R a)"
    and "(\<forall>p d e st err st'. fn p d e st = (err, st') \<longrightarrow>
            (\<exists>new. snd st' = snd st @ new \<and>
               (new = [] \<or> (e = None \<and> \<not> de_IsDir d \<and> map snd new = [p] \<and> R p)))) \<Longrightarrow>
         walkEntries fn path nodes st = (err, st') \<Longrightarrow>
         \<exists>new. snd st' = snd st @ new \<and>
               subseq (map snd new)
                 (concat (map (\<lambda>k. walkOrder (Join path (de_Name (fs_entry k))) k) nodes)) \<and>
               (\<forall>a \<in> set (map snd new). R a)"
proof (induction fn path node st and fn path nodes st arbitrary: err st' and err st'
    rule: walkDir_walkEntries.induct)
  case (1 fn path node st)
  note step = "1.prems"(1)
  obtain x y where c1: "fn path (fs_entry node) None st = (x, y)"
    by (metis prod.exhaust)
  from step[rule_format, OF c1] obtain n1 where n1: "snd y = snd st @ n1"
    "n1 = [] \<or> (\<not> de_IsDir (fs_entry node) \<and> map snd n1 = [path] \<and> R path)"
    by auto
  show ?case
  proof (cases "x \<noteq> None \<or> \<not> de_IsDir (fs_entry node)")
    case True
    with "1.prems"(2) c1 have "st' = y"
      by (auto simp: walkDir.simps split: if_splits)
    moreover have "subseq (map snd n1) (walkOrder path node)"
      using n1(2) by (auto simp: walkOrder_eq[of path node])
    moreover have "\<forall>a \<in> set (map snd n1). R a"
      using n1(2) by auto
    ultimately show ?thesis using n1(1) by blast
  next
    case False
    with n1 have y: "snd y = snd st" by auto
    show ?thesis
    proof (cases "fs_listErr node")
      case None
      with "1.prems"(2) c1 False have
        "walkEntries fn path (fs_listing node) y = (err, st')"
        by (simp add: walkDir.simps)
      from "1.IH"(1)[OF c1[symmetric] False None step this] y
      show ?thesis
        by (auto simp: walkOrder_eq[of path node] intro: list_emb_Cons)
    next
      case (Some x2)
      obtain xa ya where c2: "fn path (fs_entry node) (Some x2) y = (xa, ya)"
        by (metis prod.exhaust)
      from step[rule_format, OF c2] have ya: "snd ya = snd y"
        by auto
      show ?thesis
      proof (cases "xa \<noteq> None")
        case True
        with "1.prems"(2) c1 False Some c2 have "st' = ya"
          by (auto simp: walkDir.simps split: if_splits)
        with ya y show ?thesis by simp
      next
        case xaNone: False
        with "1.prems"(2) c1 False Some c2 have
          "walkEntries fn path (fs_listing node) ya = (err, st')"
          by (simp add: walkDir.simps)
        from "1.IH"(2)[OF c1[symmetric] False Some c2[symmetric] xaNone step this] ya y
        show ?thesis
          by (auto simp: walkOrder_eq[of path node] intro: list_emb_Cons)
      qed
    qed
  qed
next
  case (2 fn path st)
  then show ?case by simp
next
  case (3 fn path d1 rest st)
  note step = "3.prems"(1)
  let ?p1 = "Join path (de_Name (fs_entry d1))"
  obtain x y where w: "walkDir fn ?p1 d1 st = (x, y)"
    by (metis prod.exhaust)
  from "3.IH"(1)[OF step w] obtain n1 where n1: "snd y = snd st @ n1"
    "subseq (map snd n1) (walkOrder ?p1 d1)" "\<forall>a \<in> set (map snd n1). R a"
    by blast
  show ?case
  proof (cases x)
    case None
    with "3.prems"(2) w have "walkEntries fn path rest y = (err, st')"
      by simp
    from "3.IH"(2)[OF w[symmetric] None step this] obtain n2 where n2: "snd st' = snd y @ n2"
      "subseq (map snd n2)
         (concat (map (\<lambda>k. walkOrder (Join path (de_Name (fs_entry k))) k) rest))"
      "\<forall>a \<in> set (map snd n2). R a"
      by blast
    have "snd st' = snd st @ (n1 @ n2)"
      using n1(1) n2(1) by simp
    moreover have "subseq (map snd (n1 @ n2))
        (concat (map (\<lambda>k. walkOrder (Join path (de_Name (fs_entry k))) k) (d1 # rest)))"
      using list_emb_append_mono[OF n1(2) n2(2)] by simp
    moreover have "\<forall>a \<in> set (map snd (n1 @ n2)). R a"
      using n1(3) n2(3) by auto
    ultimately show ?thesis by blast
  next
    case (Some e)
    with "3.prems"(2) w have "st' = y"
      by (auto split: if_splits)
    moreover have "subseq (map snd n1)
        (concat (map (\<lambda>k. walkOrder (Join path (de_Name (fs_entry k))) k) (d1 # rest)))"
      using list_emb_append_mono[OF n1(2) list_emb_Nil[of "(=)"
          "concat (map (\<lambda>k. walkOrder (Join path (de_Name (fs_entry k))) k) rest)"]]
      by simp
    ultimately show ?thesis using n1 by blast
  qed
qed


lemma accepted_not_output:
  "IsExcluded Match ff absPath d gs = (False, e) \<Longrightarrow> ff_absFinalOutputFilePath ff \<noteq> [] \<Longrightarrow>
   absPath \<noteq> ff_absFinalOutputFilePath ff"
  by (auto simp: IsExcluded_def)

lemma walkFn_step:
  assumes "walkFn Match fsys ff basePath p d e st = (err, st')"
  shows "\<exists>new. snd st' = snd st @ new \<and>
           (new = [] \<or> (e = None \<and> \<not> de_IsDir d \<and> map snd new = [p] \<and>
              (ff_absFinalOutputFilePath ff \<noteq> [] \<longrightarrow> p \<noteq> ff_absFinalOutputFilePath ff)))"
proof (cases e)
  case (Some x)
  with assms show ?thesis
    by (cases st) (auto simp: walkFn_def split: if_splits)
next
  case None
  obtain cache written where st: "st = (cache, written)"
    by (cases st)
  let ?dir = "if \<not> de_IsDir d then Dir p else p"
  obtain pathStack cache1 where
    cm: "collectMatchers fsys basePath ?dir cache [] = (pathStack, cache1)"
    by (metis prod.exhaust)
  obtain excluded filterErr where
    ex: "IsExcluded Match ff p d (map Some (rev pathStack)) = (excluded, filterErr)"
    by (metis prod.exhaust)
  show ?thesis
  proof (cases "filterErr = None \<and> \<not> excluded \<and> \<not> de_IsDir d")
    case False
    with assms None st cm ex have "snd st' = written"
      by (auto simp: walkFn_def Let_def split: option.splits if_splits)
    with st show ?thesis by simp
  next
    case True
    with ex have "IsExcluded Match ff p d (map Some (rev pathStack)) = (False, None)"
      by simp
    from accepted_not_output[OF this]
    have out: "ff_absFinalOutputFilePath ff \<noteq> [] \<longrightarrow> p \<noteq> ff_absFinalOutputFilePath ff"
      by simp
    from assms None st cm ex True have
      "snd st' = written \<or> (\<exists>r. snd st' = written @ [(r, p)])"
      by (auto simp: walkFn_def Let_def split: sum.splits)
    with st None True out show ?thesis by auto
  qed
qed

lemma walk_written:
  assumes "WalkDir (walkFn Match fsys ff basePath) basePath rootNode (cache, w0) = (err, st')"
  shows "\<exists>new. snd st' = w0 @ new \<and> subseq (map snd new) (walkOrder basePath rootNode) \<and>
           (ff_absFinalOutputFilePath ff \<noteq> [] \<longrightarrow>
              ff_absFinalOutputFilePath ff \<notin> set (map snd new))"
proof -
  let ?R = "\<lambda>p. ff_absFinalOutputFilePath ff \<noteq> [] \<longrightarrow> p \<noteq> ff_absFinalOutputFilePath ff"
  obtain e1 s1 where w: "walkDir (walkFn Match fsys ff basePath) basePath rootNode (cache, w0) = (e1, s1)"
    by (metis prod.exhaust)
  with assms have s1: "s1 = st'"
    by (auto simp: WalkDir_def split: if_splits)
  have step: "\<forall>p d e st err st'. walkFn Match fsys ff basePath p d e st = (err, st') \<longrightarrow>
            (\<exists>new. snd st' = snd st @ new \<and>
               (new = [] \<or> (e = None \<and> \<not> de_IsDir d \<and> map snd new = [p] \<and> ?R p)))"
    using walkFn_step by blast
  from walk_emits(1)[where R="?R", OF step w] s1 show ?thesis
    by fastforce
qed

lemma process_written:
  assumes "Process Match fsys ff basePath includeTree rootNode = (tree, written)"
  shows "subseq (map snd written) (walkOrder basePath rootNode) \<and>
           (ff_absFinalOutputFilePath ff \<noteq> [] \<longrightarrow>
              ff_absFinalOutputFilePath ff \<notin> set (map snd written))"
proof -
  obtain t c1 where a: "(if includeTree then
              (case BuildTreeString Match fsys ff basePath rootNode Map.empty of
                 (treeStr, c) \<Rightarrow> (Some treeStr, c))
            else (None, Map.empty)) = (t, c1)"
    by (metis prod.exhaust)
  obtain r c2 calls where b: "compileAndCacheGitIgnore fsys c1 basePath = (r, c2, calls)"
    by (metis prod.exhaust)
  obtain werr c3 w where
    c: "WalkDir (walkFn Match fsys ff basePath) basePath rootNode (c2, []) = (werr, (c3, w))"
    by (metis prod.exhaust)
  from assms a b c have "written = w"
    by (simp add: Process_def)
  with walk_written[OF c] show ?thesis by simp
qed


lemma treeOrder_eq:
  "treeOrder path node =
     path # concat (map (\<lambda>k. treeOrder (Join path (de_Name (fs_entry k))) k)
                     (sortEntries (fs_listing node)))"
  by (cases node) simp

lemma build_paths:
  shows "buildNodeRecursive M fsys ff p dn act c = (kids, c') \<Longrightarrow>
           subseq (concat (map (nodePaths p) kids)) (tl (treeOrder p dn)) \<and>
           (ff_absFinalOutputFilePath ff \<noteq> [] \<longrightarrow>
              ff_absFinalOutputFilePath ff \<notin> set (concat (map (nodePaths p) kids)))"
    and "buildEntries M fsys ff p es act c = (nodes, c') \<Longrightarrow>
           subseq (concat (map (nodePaths p) nodes))
             (concat (map (\<lambda>k. treeOrder (Join p (de_Name (fs_entry k))) k) es)) \<and>
           (ff_absFinalOutputFilePath ff \<noteq> [] \<longrightarrow>
              ff_absFinalOutputFilePath ff \<notin> set (concat (map (nodePaths p) nodes)))"
proof (induction M fsys ff p dn act c and M fsys ff p es act c arbitrary: kids c' and nodes c'
    rule: buildNodeRecursive_buildEntries.induct)
  case (1 Match fsys ff currentDirPath dirNode parentActiveIgnores cache)
  show ?case
  proof (cases "fs_listErr dirNode")
    case (Some err)
    with "1.prems" show ?thesis
      by (simp add: buildNodeRecursive.simps)
  next
    case None
    obtain g cerr cache1 calls where
      comp: "compileAndCacheGitIgnore fsys cache currentDirPath = ((g, cerr), cache1, calls)"
      by (metis prod.exhaust)
    from "1.prems" None comp have
      "buildEntries Match fsys ff currentDirPath (sortEntries (fs_listing dirNode))
         (extendIgnores parentActiveIgnores g) cache1 = (kids, c')"
      by (simp add: buildNodeRecursive.simps)
    from "1.IH"[OF None comp[symmetric] refl refl this]
    show ?thesis
      by (simp add: treeOrder_eq[of currentDirPath dirNode])
  qed
next
  case (2 Match fsys ff currentDirPath currentActiveIgnores cache)
  then show ?case by simp
next
  case (3 Match fsys ff currentDirPath e es currentActiveIgnores cache)
  let ?abs = "Join currentDirPath (de_Name (fs_entry e))"
  let ?rest = "concat (map (\<lambda>k. treeOrder (Join currentDirPath (de_Name (fs_entry k))) k) es)"
  let ?out = "ff_absFinalOutputFilePath ff"
  obtain excluded filterErr where
    ex: "IsExcluded Match ff ?abs (fs_entry e) (map Some currentActiveIgnores) = (excluded, filterErr)"
    by (metis prod.exhaust)
  show ?case
  proof (cases "filterErr \<noteq> None \<or> excluded")
    case True
    with "3.prems" ex have
      "buildEntries Match fsys ff currentDirPath es currentActiveIgnores cache = (nodes, c')"
      by (auto split: if_splits)
    then have "subseq (concat (map (nodePaths currentDirPath) nodes)) ?rest \<and>
           (?out \<noteq> [] \<longrightarrow> ?out \<notin> set (concat (map (nodePaths currentDirPath) nodes)))"
      using True "3.IH"(1)[OF ex[symmetric]] "3.IH"(2)[OF ex[symmetric]] by blast
    then show ?thesis
      by (simp add: list_emb_append2)
  next
    case False
    then have f: "filterErr = None" "\<not> excluded" by auto
    with ex have "IsExcluded Match ff ?abs (fs_entry e) (map Some currentActiveIgnores) = (False, None)"
      by simp
    from accepted_not_output[OF this] have notout: "?out \<noteq> [] \<longrightarrow> ?abs \<noteq> ?out"
      by simp
    have hd: "treeOrder ?abs e = ?abs # tl (treeOrder ?abs e)"
      by (simp add: treeOrder_eq[of ?abs e])
    show ?thesis
    proof (cases "de_IsDir (fs_entry e)")
      case True
      obtain kids0 cache1 where
        k: "buildNodeRecursive Match fsys ff ?abs e currentActiveIgnores cache = (kids0, cache1)"
        by (metis prod.exhaust)
      obtain rest cache2 where
        r: "buildEntries Match fsys ff currentDirPath es currentActiveIgnores cache1 = (rest, cache2)"
        by (metis prod.exhaust)
      from "3.prems" ex f True k r have nodes:
        "nodes = TreeNode (de_Name (fs_entry e)) True kids0 # rest"
        by simp
      have ihk: "subseq (concat (map (nodePaths ?abs) kids0)) (tl (treeOrder ?abs e)) \<and>
           (?out \<noteq> [] \<longrightarrow> ?out \<notin> set (concat (map (nodePaths ?abs) kids0)))"
        using "3.IH"(3) ex f True k by simp
      have ihr: "subseq (concat (map (nodePaths currentDirPath) rest)) ?rest \<and>
           (?out \<noteq> [] \<longrightarrow> ?out \<notin> set (concat (map (nodePaths currentDirPath) rest)))"
        using "3.IH"(4) ex f True k r by simp
      have "subseq (?abs # concat (map (nodePaths ?abs) kids0)) (treeOrder ?abs e)"
        using ihk by (subst hd) simp
      then have "subseq ((?abs # concat (map (nodePaths ?abs) kids0)) @
                    concat (map (nodePaths currentDirPath) rest))
                  (treeOrder ?abs e @ ?rest)"
        using ihr by (intro list_emb_append_mono) simp_all
      then show ?thesis
        unfolding nodes using ihk ihr notout by auto
    next
      case False
      obtain rest cache1 where
        r: "buildEntries Match fsys ff currentDirPath es currentActiveIgnores cache = (rest, cache1)"
        by (metis prod.exhaust)
      from "3.prems" ex f False r have nodes:
        "nodes = TreeNode (de_Name (fs_entry e)) False [] # rest"
        by simp
      have ihr: "subseq (concat (map (nodePaths currentDirPath) rest)) ?rest \<and>
           (?out \<noteq> [] \<longrightarrow> ?out \<notin> set (concat (map (nodePaths currentDirPath) rest)))"
        using "3.IH"(5) ex f False r by simp
      have "subseq [?abs] (treeOrder ?abs e)"
        by (subst hd) simp
      then have "subseq ([?abs] @ concat (map (nodePaths currentDirPath) rest))
                  (treeOrder ?abs e @ ?rest)"
        using ihr by (intro list_emb_append_mono) simp_all
      then show ?thesis
        unfolding nodes using ihr notout by auto
    qed
  qed
qed

lemma buildRoot_paths:
  assumes "buildRoot Match fsys ff basePath rootNode cache = (root, cache1)"
  shows "subseq (treePaths basePath root) (tl (treeOrder basePath rootNode)) \<and>
         (ff_absFinalOutputFilePath ff \<noteq> [] \<longrightarrow>
            ff_absFinalOutputFilePath ff \<notin> set (treePaths basePath root))"
proof -
  obtain g cerr c1 calls where
    comp: "compileAndCacheGitIgnore fsys cache basePath = ((g, cerr), c1, calls)"
    by (metis prod.exhaust)
  obtain kids c2 where
    k: "buildNodeRecursive Match fsys ff basePath rootNode
          (case g of Some m \<Rightarrow> [m] | None \<Rightarrow> []) c1 = (kids, c2)"
    by (metis prod.exhaust)
  from assms comp k have root: "root = TreeNode (Base basePath) True kids"
    by (simp add: buildRoot_def)
  from build_paths(1)[OF k] show ?thesis
    by (simp add: root treePaths_def)
qed

subsection \<open>The output file\<close>

text \<open>
  Claim C3. An entry whose absolute path is the configured output path is reported
  excluded, with a nil error, before any other rule is looked at: whatever the entry, its
  information and the active matchers are. So no block of the content is read from the
  output path, and no node of the tree stands for it, whatever the file system holds.
\<close>

theorem self_exclusion:
  assumes "ff_absFinalOutputFilePath ff \<noteq> []"
  shows "IsExcluded Match ff (ff_absFinalOutputFilePath ff) d gs = (True, None) \<and>
         (Process Match fsys ff basePath includeTree rootNode = (tree, written) \<longrightarrow>
            ff_absFinalOutputFilePath ff \<notin> set (map snd written)) \<and>
         (buildRoot Match fsys ff basePath rootNode cache = (root, cache1) \<longrightarrow>
            ff_absFinalOutputFilePath ff \<notin> set (treePaths basePath root))"
proof (intro conjI impI)
  show "IsExcluded Match ff (ff_absFinalOutputFilePath ff) d gs = (True, None)"
    using assms by (simp add: IsExcluded_def)
next
  assume "Process Match fsys ff basePath includeTree rootNode = (tree, written)"
  from process_written[OF this] assms
  show "ff_absFinalOutputFilePath ff \<notin> set (map snd written)"
    by blast
next
  assume "buildRoot Match fsys ff basePath rootNode cache = (root, cache1)"
  from buildRoot_paths[OF this] assms
  show "ff_absFinalOutputFilePath ff \<notin> set (treePaths basePath root)"
    by blast
qed

theorem self_exclusion_witness:
  "ff_absFinalOutputFilePath sampleFilter \<noteq> [] \<and>
   IsExcluded globMatch sampleFilter ''/p/out.txt'' (newMockFile ''out.txt'' 9 0) [] = (True, None) \<and>
   ''/p/out.txt'' \<notin> set (map snd (snd (Process globMatch noGitignore sampleFilter ''/p'' True
      orderTree))) \<and>
   ''/p/out.txt'' \<notin> set (treePaths ''/p''
      (fst (buildRoot globMatch noGitignore sampleFilter ''/p'' orderTree Map.empty)))"
proof -
  have ne: "ff_absFinalOutputFilePath sampleFilter \<noteq> []"
    by (simp add: sample_output)
  obtain tree written where
    p: "Process globMatch noGitignore sampleFilter ''/p'' True orderTree = (tree, written)"
    by (metis prod.exhaust)
  obtain root c1 where
    b: "buildRoot globMatch noGitignore sampleFilter ''/p'' orderTree Map.empty = (root, c1)"
    by (metis prod.exhaust)
  from self_exclusion[OF ne, where Match=globMatch and d="newMockFile ''out.txt'' 9 0"
      and gs="[]" and fsys=noGitignore and basePath="''/p''" and includeTree=True
      and rootNode=orderTree and tree=tree and written=written and cache=Map.empty
      and root=root and ?cache1.0=c1] p b ne
  show ?thesis
    by (simp add: sample_output)
qed

subsection \<open>The order of the content and the order of the tree\<close>




subsection \<open>The tree against the content\<close>

text \<open>
  Claim C2, at a run on a directory named \<open>build\<close>. The walk hands the root directory
  itself to the filter, which skips it for its name, so no content block is written; the
  tree builder starts below the root and shows \<open>main.go\<close>. The file is in the tree and
  not in the content.
\<close>

theorem root_directory_filtered_by_the_walk_only:
  "snd (Process globMatch noGitignore buildDirFilter ''/w/build'' True buildDirTree) = [] \<and>
   treeFiles (fst (buildRoot globMatch noGitignore buildDirFilter ''/w/build'' buildDirTree
      Map.empty)) = [''main.go'']"
  by code_simp


end
